theory Spec2Isabelle
  imports Complex_Main "HOL-Library.Multiset"
begin

section \<open>Text, as Python's str\<close>

text \<open>
  A Python \<open>str\<close> is a sequence of Unicode code points. A code point is a natural
  number here, so that every character a UTF-8 file can hold is a value of the model;
  \<open>str\<close> turns an ASCII literal into its code points.
\<close>

type_synonym pystr = "nat list"

definition str :: "string \<Rightarrow> pystr" where
  "str s = map of_char s"

text \<open>
  \<open>str.strip()\<close> with no argument removes the characters for which CPython's
  \<open>Py_UNICODE_ISSPACE\<close> holds, from both ends.
\<close>

definition is_space :: "nat \<Rightarrow> bool" where
  "is_space c =
     ((9 \<le> c \<and> c \<le> 13) \<or> (28 \<le> c \<and> c \<le> 32) \<or> c = 133 \<or> c = 160 \<or> c = 5760
      \<or> (8192 \<le> c \<and> c \<le> 8202) \<or> c = 8232 \<or> c = 8233 \<or> c = 8239 \<or> c = 8287
      \<or> c = 12288)"

definition strip :: "pystr \<Rightarrow> pystr" where
  "strip s = rev (dropWhile is_space (rev (dropWhile is_space s)))"

definition startswith :: "pystr \<Rightarrow> pystr \<Rightarrow> bool" where
  "startswith s p = (take (length p) s = p)"

definition endswith :: "pystr \<Rightarrow> pystr \<Rightarrow> bool" where
  "endswith s p = (length p \<le> length s \<and> drop (length s - length p) s = p)"

section \<open>The scan loop of calculate_comment_code_ratio\<close>

text \<open>
  The three local variables of the loop (main.py, lines 64 to 66). The counters are
  Python integers; that they never become negative is proved below, not assumed by
  their type.
\<close>

record scan_state =
  comment_count :: int
  code_line_count :: int
  in_multiline_comment :: bool

definition scan_init :: scan_state where
  "scan_init = \<lparr>comment_count = 0, code_line_count = 0, in_multiline_comment = False\<rparr>"

text \<open>
  One iteration of the loop body (lines 69 to 94). A \<open>continue\<close> is the end of the
  iteration: the state reached so far is the result.
\<close>

definition scan_line :: "scan_state \<Rightarrow> pystr \<Rightarrow> scan_state" where
  "scan_line st raw =
     (let line = strip raw in
      if line = [] then st
      else if startswith line (str [CHR 0x27, CHR 0x27, CHR 0x27])
              \<or> startswith line (str [CHR 0x22, CHR 0x22, CHR 0x22])
      then st\<lparr>in_multiline_comment := \<not> in_multiline_comment st,
                comment_count := comment_count st + 1\<rparr>
      else if in_multiline_comment st
      then st\<lparr>comment_count := comment_count st + 1\<rparr>
      else
        (if startswith line (str ''#'') \<or> startswith line (str ''//'')
         then st\<lparr>comment_count := comment_count st + 1\<rparr>
         else if startswith line (str ''/*'')
         then st\<lparr>comment_count := comment_count st + 1, in_multiline_comment := True\<rparr>
         else if endswith line (str ''*/'') \<and> in_multiline_comment st
         then st\<lparr>comment_count := comment_count st + 1, in_multiline_comment := False\<rparr>
         else st\<lparr>code_line_count := code_line_count st + 1\<rparr>))"

fun scan :: "scan_state \<Rightarrow> pystr list \<Rightarrow> scan_state" where
  "scan st [] = st"
| "scan st (raw # rest) = scan (scan_line st raw) rest"

text \<open>
  Lines 96 to 99. Python's \<open>/\<close> on two integers is the correctly rounded quotient
  as a float; the model keeps the exact quotient as a rational number, so the rounding
  of the last bit is not part of it.
\<close>

definition ratio_of :: "int \<Rightarrow> int \<Rightarrow> rat" where
  "ratio_of comments code = (if code > 0 then of_int comments / of_int code else 0)"

text \<open>Lines 64 to 101: what the function computes from the lines it has read.\<close>

definition classify_lines :: "pystr list \<Rightarrow> int \<times> int \<times> rat" where
  "classify_lines lines =
     (let st = scan scan_init lines
      in (comment_count st, code_line_count st,
          ratio_of (comment_count st) (code_line_count st)))"

section \<open>Reading a file\<close>

text \<open>
  The file system is the environment of the program. \<open>read_file\<close> stands for
  \<open>open(file_path, 'r', encoding='utf-8')\<close> followed by \<open>readlines()\<close>: it gives
  the lines, or the exception raised. The three handlers of lines 54 to 62 are the
  three errors. The file system does not change while the program runs.
\<close>

datatype io_error = FileNotFoundError | PermissionError | OtherException

record filesystem =
  isdir :: "pystr \<Rightarrow> bool"
  isfile :: "pystr \<Rightarrow> bool"
  walk :: "pystr \<Rightarrow> (pystr \<times> pystr list \<times> pystr list) list"
  read_file :: "pystr \<Rightarrow> io_error + pystr list"

text \<open>
  calculate_comment_code_ratio (lines 40 to 101). The tuple \<open>(None, None, None)\<close> is
  \<open>None\<close>, a tuple of three values is \<open>Some\<close>. The function's unused parameter
  \<open>exclude_patterns\<close> is left out. Its effect on the world, the call of \<open>open\<close>,
  is recorded in a log of the paths passed to \<open>open\<close>, threaded through the call.
\<close>

definition calculate_comment_code_ratio ::
  "filesystem \<Rightarrow> pystr \<Rightarrow> pystr list \<Rightarrow> (int \<times> int \<times> rat) option \<times> pystr list" where
  "calculate_comment_code_ratio fs file_path oplog =
     (case read_file fs file_path of
        Inl e \<Rightarrow> (None, oplog @ [file_path])
      | Inr lines \<Rightarrow> (Some (classify_lines lines), oplog @ [file_path]))"

section \<open>Paths, as posixpath has them\<close>

text \<open>\<open>s.rfind(c)\<close> for a one-character \<open>c\<close>: the highest index of \<open>c\<close>, or -1.\<close>

fun rfind :: "pystr \<Rightarrow> nat \<Rightarrow> int" where
  "rfind [] c = - 1"
| "rfind (x # xs) c =
     (let r = rfind xs c in if r \<ge> 0 then r + 1 else if x = c then 0 else - 1)"

text \<open>\<open>os.path.join(a, b)\<close> for two components.\<close>

definition join :: "pystr \<Rightarrow> pystr \<Rightarrow> pystr" where
  "join a b =
     (if startswith b (str ''/'') then b
      else if a = [] \<or> endswith a (str ''/'') then a @ b
      else a @ str ''/'' @ b)"

text \<open>
  \<open>os.path.splitext\<close>: the loop of \<open>genericpath._splitext\<close> skips the leading dots
  of the file name; it answers \<open>True\<close> when it returns from inside, with an extension.
  47 is the slash, 46 the dot.
\<close>

function splitext_loop :: "pystr \<Rightarrow> int \<Rightarrow> int \<Rightarrow> bool" where
  "splitext_loop p filenameIndex dotIndex =
     (if filenameIndex < dotIndex
      then (if take 1 (drop (nat filenameIndex) p) \<noteq> str ''.'' then True
            else splitext_loop p (filenameIndex + 1) dotIndex)
      else False)"
  by pat_completeness auto
termination
  by (relation "measure (\<lambda>(p, filenameIndex, dotIndex). nat (dotIndex - filenameIndex))") auto

definition splitext :: "pystr \<Rightarrow> pystr \<times> pystr" where
  "splitext p =
     (let sepIndex = rfind p 47; dotIndex = rfind p 46
      in if dotIndex > sepIndex \<and> splitext_loop p (sepIndex + 1) dotIndex
         then (take (nat dotIndex) p, drop (nat dotIndex) p)
         else (p, []))"

section \<open>analyze_directory\<close>

text \<open>
  Lines 128 to 132: \<open>exclude_extensions\<close> is \<open>None\<close> or a list; an empty list is
  false in the \<open>if\<close>, as \<open>None\<close> is.
\<close>

definition excluded :: "pystr list option \<Rightarrow> pystr \<Rightarrow> bool" where
  "excluded exclude_extensions file_path =
     (case exclude_extensions of
        None \<Rightarrow> False
      | Some exts \<Rightarrow> exts \<noteq> [] \<and> snd (splitext file_path) \<in> set exts)"

text \<open>The loop variables of lines 115 to 117, and the log of opened paths.\<close>

record agg_state =
  total_comment_lines :: int
  total_code_lines :: int
  file_count :: int
  opened :: "pystr list"

text \<open>The body of the inner loop, lines 125 to 147.\<close>

definition visit_file ::
  "filesystem \<Rightarrow> pystr list option \<Rightarrow> pystr \<Rightarrow> agg_state \<Rightarrow> pystr \<Rightarrow> agg_state" where
  "visit_file fs exclude_extensions root' st file =
     (let file_path = join root' file in
      if excluded exclude_extensions file_path then st
      else if \<not> isfile fs file_path then st
      else
        (case calculate_comment_code_ratio fs file_path (opened st) of
           (Some (comment_count', code_line_count', ratio), oplog) \<Rightarrow>
             st\<lparr>file_count := file_count st + 1,
                total_comment_lines := total_comment_lines st + comment_count',
                total_code_lines := total_code_lines st + code_line_count',
                opened := oplog\<rparr>
         | (None, oplog) \<Rightarrow> st\<lparr>opened := oplog\<rparr>))"

fun visit_files ::
  "filesystem \<Rightarrow> pystr list option \<Rightarrow> pystr \<Rightarrow> agg_state \<Rightarrow> pystr list \<Rightarrow> agg_state" where
  "visit_files fs exclude_extensions root' st [] = st"
| "visit_files fs exclude_extensions root' st (file # files) =
     visit_files fs exclude_extensions root' (visit_file fs exclude_extensions root' st file) files"

fun walk_loop ::
  "filesystem \<Rightarrow> pystr list option \<Rightarrow> agg_state \<Rightarrow> (pystr \<times> pystr list \<times> pystr list) list
   \<Rightarrow> agg_state" where
  "walk_loop fs exclude_extensions st [] = st"
| "walk_loop fs exclude_extensions st ((root', dirs, files) # rest) =
     walk_loop fs exclude_extensions (visit_files fs exclude_extensions root' st files) rest"

text \<open>
  The function prints its summary and returns nothing; the model returns the four
  numbers of the summary (files analyzed, comment lines, code lines, overall ratio), or
  \<open>None\<close> when the path is not a directory and nothing is printed, and the log of
  opened paths.
\<close>

definition analyze_directory ::
  "filesystem \<Rightarrow> pystr \<Rightarrow> pystr list option \<Rightarrow> pystr list
   \<Rightarrow> (int \<times> int \<times> int \<times> rat) option \<times> pystr list" where
  "analyze_directory fs directory_path exclude_extensions oplog =
     (if \<not> isdir fs directory_path then (None, oplog)
      else
        (let st = walk_loop fs exclude_extensions
                    \<lparr>total_comment_lines = 0, total_code_lines = 0, file_count = 0,
                     opened = oplog\<rparr>
                    (walk fs directory_path);
             total_ratio = (if total_code_lines st > 0
                            then of_int (total_comment_lines st) / of_int (total_code_lines st)
                            else 0)
         in (Some (file_count st, total_comment_lines st, total_code_lines st, total_ratio),
             opened st)))"

section \<open>The specification's descriptions\<close>

text \<open>
  The seven rules of the specification's Line Classifier, in its words: which rule
  fires for a trimmed line under a flag, and what the rule does to the two counts and
  the flag.
\<close>

datatype rule =
  Blank | TripleQuote | InsideBlock | LineComment | BlockOpen | BlockClose | Code

definition spec_rule :: "bool \<Rightarrow> pystr \<Rightarrow> rule" where
  "spec_rule flag line =
     (if line = [] then Blank
      else if startswith line (str [CHR 0x22, CHR 0x22, CHR 0x22])
              \<or> startswith line (str [CHR 0x27, CHR 0x27, CHR 0x27]) then TripleQuote
      else if flag then InsideBlock
      else if startswith line (str ''#'') \<or> startswith line (str ''//'') then LineComment
      else if startswith line (str ''/*'') then BlockOpen
      else if endswith line (str ''*/'') \<and> flag then BlockClose
      else Code)"

fun spec_effect :: "rule \<Rightarrow> int \<times> int \<times> bool \<Rightarrow> int \<times> int \<times> bool" where
  "spec_effect Blank (c, k, flag) = (c, k, flag)"
| "spec_effect TripleQuote (c, k, flag) = (c + 1, k, \<not> flag)"
| "spec_effect InsideBlock (c, k, flag) = (c + 1, k, flag)"
| "spec_effect LineComment (c, k, flag) = (c + 1, k, flag)"
| "spec_effect BlockOpen (c, k, flag) = (c + 1, k, True)"
| "spec_effect BlockClose (c, k, flag) = (c + 1, k, False)"
| "spec_effect Code (c, k, flag) = (c, k + 1, flag)"

fun spec_pass :: "int \<times> int \<times> bool \<Rightarrow> pystr list \<Rightarrow> int \<times> int \<times> bool" where
  "spec_pass s [] = s"
| "spec_pass (c, k, flag) (raw # rest) =
     spec_pass (spec_effect (spec_rule flag (strip raw)) (c, k, flag)) rest"

text \<open>The loop variables as the triple the rules work on.\<close>

definition view :: "scan_state \<Rightarrow> int \<times> int \<times> bool" where
  "view st = (comment_count st, code_line_count st, in_multiline_comment st)"

text \<open>The blank lines of a file: the lines that are empty after trimming.\<close>

definition blank_lines :: "pystr list \<Rightarrow> nat" where
  "blank_lines lines = length (filter (\<lambda>raw. strip raw = []) lines)"

text \<open>
  The aggregate as the specification describes it: the paths the traversal meets, the
  ones it opens (not excluded, a regular file), the ones that count (opened and read
  without error), and the sums of the per-file results over a multiset of paths.
\<close>

definition walked_paths :: "(pystr \<times> pystr list \<times> pystr list) list \<Rightarrow> pystr list" where
  "walked_paths w = concat (map (\<lambda>(root', dirs, files). map (join root') files) w)"

definition candidates :: "filesystem \<Rightarrow> pystr \<Rightarrow> pystr list" where
  "candidates fs d = walked_paths (walk fs d)"

definition opens :: "filesystem \<Rightarrow> pystr list option \<Rightarrow> pystr \<Rightarrow> bool" where
  "opens fs exclude_extensions p = (\<not> excluded exclude_extensions p \<and> isfile fs p)"

definition counted :: "filesystem \<Rightarrow> pystr list option \<Rightarrow> pystr \<Rightarrow> bool" where
  "counted fs exclude_extensions p =
     (\<not> excluded exclude_extensions p \<and> isfile fs p \<and> isl (read_file fs p) = False)"

definition file_comments :: "filesystem \<Rightarrow> pystr \<Rightarrow> int" where
  "file_comments fs p =
     (case read_file fs p of Inl e \<Rightarrow> 0 | Inr lines \<Rightarrow> fst (classify_lines lines))"

definition file_code :: "filesystem \<Rightarrow> pystr \<Rightarrow> int" where
  "file_code fs p =
     (case read_file fs p of Inl e \<Rightarrow> 0 | Inr lines \<Rightarrow> fst (snd (classify_lines lines)))"

definition spec_aggregate ::
  "filesystem \<Rightarrow> pystr list option \<Rightarrow> pystr multiset \<Rightarrow> int \<times> int \<times> int \<times> rat" where
  "spec_aggregate fs exclude_extensions paths =
     (let good = filter_mset (counted fs exclude_extensions) paths;
          comments = sum_mset (image_mset (file_comments fs) good);
          code = sum_mset (image_mset (file_code fs) good)
      in (int (size good), comments, code, ratio_of comments code))"

section \<open>An example file system\<close>

text \<open>
  A directory \<open>proj\<close> whose walk meets five names: \<open>a.py\<close> (three lines, one of
  them blank), \<open>b.log\<close>, a file named \<open>.log\<close>, \<open>locked.py\<close>, which may not be read,
  and \<open>sub\<close>, which is not a regular file.
\<close>

definition demo_read :: "pystr \<Rightarrow> io_error + pystr list" where
  "demo_read p =
     (if p = str ''proj/a.py'' then Inr [str ''# hello'', [], str ''world'']
      else if p = str ''proj/b.log'' then Inr [str ''entry'']
      else if p = str ''proj/.log'' then Inr [str ''# note'']
      else if p = str ''proj/empty.py'' then Inr []
      else if p = str ''proj/locked.py'' then Inl PermissionError
      else Inl FileNotFoundError)"

definition demo_fs :: filesystem where
  "demo_fs =
     \<lparr>isdir = (\<lambda>p. p = str ''proj''),
      isfile = (\<lambda>p. p \<in> set [str ''proj/a.py'', str ''proj/b.log'', str ''proj/.log'',
                              str ''proj/locked.py'', str ''proj/empty.py'']),
      walk = (\<lambda>p. if p = str ''proj''
                   then [(str ''proj'', [str ''sub''],
                          [str ''a.py'', str ''b.log'', str ''.log'', str ''locked.py'',
                           str ''sub''])]
                   else []),
      read_file = demo_read\<rparr>"

text \<open>
  A second directory with two files: \<open>open.c\<close> opens a block comment and never
  closes it, \<open>x.py\<close> is one line of code.
\<close>

definition two_files_fs :: filesystem where
  "two_files_fs =
     \<lparr>isdir = (\<lambda>p. p = str ''proj''),
      isfile = (\<lambda>p. p = str ''proj/open.c'' \<or> p = str ''proj/x.py''),
      walk = (\<lambda>p. [(str ''proj'', [], [str ''open.c'', str ''x.py''])]),
      read_file = (\<lambda>p. if p = str ''proj/open.c'' then Inr [str ''/* open'']
                         else if p = str ''proj/x.py'' then Inr [str ''code'']
                         else Inl FileNotFoundError)\<rparr>"

text \<open>The loop variables of analyze_directory before the first file.\<close>

definition agg_start :: agg_state where
  "agg_start = \<lparr>total_comment_lines = 0, total_code_lines = 0, file_count = 0, opened = []\<rparr>"

section \<open>Concrete runs\<close>

lemma str_simps:
  "str [] = []"
  "str (c # cs) = of_char c # str cs"
  by (simp_all add: str_def)

lemmas eval_defs =
  classify_lines_def scan_init_def scan_line_def strip_def is_space_def
  startswith_def endswith_def ratio_of_def str_simps Let_def

text \<open>
  C2. The spec gives 2 comment lines and 3 code lines for a block delimited by two
  triple-quote lines with two lines inside and one line after it. The loop counts the
  two delimiters and the two lines between them as comments, and only the last line
  as code.
\<close>

theorem triple_quote_block_counts:
  "fst (classify_lines [str [CHR 0x22, CHR 0x22, CHR 0x22], str ''code'', str ''code'',
                        str [CHR 0x22, CHR 0x22, CHR 0x22], str ''code'']) = 4
   \<and> fst (snd (classify_lines [str [CHR 0x22, CHR 0x22, CHR 0x22], str ''code'', str ''code'',
                        str [CHR 0x22, CHR 0x22, CHR 0x22], str ''code''])) = 1"
  by (simp add: eval_defs)

theorem triple_quote_block_counterexample:
  "\<not> (fst (classify_lines [str [CHR 0x22, CHR 0x22, CHR 0x22], str ''code'', str ''code'',
                        str [CHR 0x22, CHR 0x22, CHR 0x22], str ''code'']) = 2
   \<and> fst (snd (classify_lines [str [CHR 0x22, CHR 0x22, CHR 0x22], str ''code'', str ''code'',
                        str [CHR 0x22, CHR 0x22, CHR 0x22], str ''code''])) = 3)"
  by (simp add: eval_defs)

text \<open>
  C3. For a one-line block comment followed by a line of code the spec gives 1 comment
  line and 0 code lines. The flag stays set after the first line, so the second line is
  counted as a comment too: 2 comment lines, 0 code lines.
\<close>

theorem single_line_block_comment_counts:
  "fst (classify_lines [str ''/* c */'', str ''code'']) = 2
   \<and> fst (snd (classify_lines [str ''/* c */'', str ''code''])) = 0
   \<and> in_multiline_comment (scan_line scan_init (str ''/* c */''))"
  by (simp add: eval_defs)

theorem single_line_block_comment_counterexample:
  "\<not> (fst (classify_lines [str ''/* c */'', str ''code'']) = 1
   \<and> fst (snd (classify_lines [str ''/* c */'', str ''code''])) = 0)"
  by (simp add: eval_defs)

section \<open>The scan loop follows the seven rules\<close>

lemma scan_line_spec:
  "view (scan_line st raw)
     = spec_effect (spec_rule (in_multiline_comment st) (strip raw)) (view st)"
  by (simp add: scan_line_def spec_rule_def view_def Let_def)

lemma scan_spec_pass: "view (scan st lines) = spec_pass (view st) lines"
proof (induction lines arbitrary: st)
  case Nil
  show ?case by simp
next
  case (Cons raw rest)
  have "spec_pass (view st) (raw # rest) =
        spec_pass (spec_effect (spec_rule (in_multiline_comment st) (strip raw)) (view st)) rest"
    by (simp add: view_def)
  with Cons show ?case by (simp add: scan_line_spec)
qed

text \<open>
  C1. The counts the scan loop returns are the counts of a single forward pass that
  starts with both counts 0 and the flag false and applies, to each trimmed line, the
  first of the seven rules that matches; the flag the loop ends with is the flag of
  that pass.
\<close>

theorem scan_loop_is_seven_rule_pass:
  "spec_pass (0, 0, False) lines
     = (fst (classify_lines lines), fst (snd (classify_lines lines)),
        in_multiline_comment (scan scan_init lines))"
proof -
  have "spec_pass (view scan_init) lines = view (scan scan_init lines)"
    by (simp add: scan_spec_pass)
  moreover have "view scan_init = (0, 0, False)"
    by (simp add: view_def scan_init_def)
  ultimately show ?thesis
    by (simp add: classify_lines_def Let_def view_def)
qed

section \<open>Every line is counted once or is blank\<close>



lemma scan_line_total:
  "comment_count (scan_line st raw) + code_line_count (scan_line st raw)
     = comment_count st + code_line_count st + (if strip raw = [] then 0 else 1)"
  by (simp add: scan_line_def Let_def)

lemma scan_line_mono:
  "comment_count st \<le> comment_count (scan_line st raw)
   \<and> code_line_count st \<le> code_line_count (scan_line st raw)"
  by (simp add: scan_line_def Let_def)

lemma scan_total:
  "comment_count (scan st lines) + code_line_count (scan st lines) + int (blank_lines lines)
     = comment_count st + code_line_count st + int (length lines)"
proof (induction lines arbitrary: st)
  case Nil
  show ?case by (simp add: blank_lines_def)
next
  case (Cons raw rest)
  have "blank_lines (raw # rest) = (if strip raw = [] then 1 else 0) + blank_lines rest"
    by (simp add: blank_lines_def)
  with Cons [of "scan_line st raw"] scan_line_total [of st raw] show ?case
    by (simp split: if_splits)
qed

lemma scan_mono:
  "comment_count st \<le> comment_count (scan st lines)
   \<and> code_line_count st \<le> code_line_count (scan st lines)"
proof (induction lines arbitrary: st)
  case Nil
  show ?case by simp
next
  case (Cons raw rest)
  from Cons [of "scan_line st raw"] scan_line_mono [of st raw] show ?case
    by simp
qed

lemma classify_lines_nonneg:
  "0 \<le> fst (classify_lines lines) \<and> 0 \<le> fst (snd (classify_lines lines))"
  using scan_mono [of scan_init lines]
  by (simp add: classify_lines_def Let_def scan_init_def)

text \<open>
  C4. For every sequence of lines, comment lines plus code lines plus blank lines is
  the number of lines; so comment lines plus code lines is at most the number of
  lines, and equal to it exactly when no line is blank.
\<close>

theorem counts_and_blank_lines_partition:
  "fst (classify_lines lines) + fst (snd (classify_lines lines)) + int (blank_lines lines)
     = int (length lines)
   \<and> fst (classify_lines lines) + fst (snd (classify_lines lines)) \<le> int (length lines)
   \<and> ((fst (classify_lines lines) + fst (snd (classify_lines lines)) = int (length lines))
       = (blank_lines lines = 0))"
  using scan_total [of scan_init lines]
  by (auto simp add: classify_lines_def Let_def scan_init_def)

section \<open>The extension of a dot file\<close>

lemma rfind_notin: "c \<notin> set xs \<Longrightarrow> rfind xs c = - 1"
  by (induction xs) (auto simp add: Let_def)

lemma rfind_hit: "c \<notin> set ys \<Longrightarrow> rfind (xs @ c # ys) c = int (length xs)"
  by (induction xs) (auto simp add: Let_def rfind_notin)

text \<open>
  A path that ends in a name made of a dot and a dot-free rest: the last dot comes
  right after the last slash (or first in the path), so the loop over the leading dots
  does not run and the extension is empty.
\<close>

lemma splitext_dotfile:
  assumes "46 \<notin> set s" and "47 \<notin> set s" and "pre = [] \<or> (\<exists>q. pre = q @ [47])"
  shows "splitext (pre @ 46 # s) = (pre @ 46 # s, [])"
proof -
  have dot: "rfind (pre @ 46 # s) 46 = int (length pre)"
    using assms(1) by (rule rfind_hit)
  have sep: "rfind (pre @ 46 # s) 47 + 1 = int (length pre)"
  proof (cases "pre = []")
    case True
    with assms(2) show ?thesis by (simp add: rfind_notin Let_def)
  next
    case False
    with assms(3) obtain q where q: "pre = q @ [47]" by blast
    have "47 \<notin> set (46 # s)" using assms(2) by simp
    then have "rfind (q @ 47 # (46 # s)) 47 = int (length q)" by (rule rfind_hit)
    with q show ?thesis by simp
  qed
  have "splitext_loop (pre @ 46 # s) (rfind (pre @ 46 # s) 47 + 1) (rfind (pre @ 46 # s) 46)
          = False"
    unfolding sep dot by simp
  then show ?thesis
    unfolding splitext_def Let_def by simp
qed

lemma join_dotfile:
  "\<exists>pre. join r (46 # s) = pre @ 46 # s \<and> (pre = [] \<or> (\<exists>q. pre = q @ [47]))"
proof -
  have a: "\<not> startswith (46 # s) (str ''/'')"
    by (simp add: startswith_def str_def)
  show ?thesis
  proof (cases "r = []")
    case True
    then show ?thesis using a by (simp add: join_def)
  next
    case False
    show ?thesis
    proof (cases "endswith r (str ''/'')")
      case True
      then have "drop (length r - 1) r = [47]"
        by (simp add: endswith_def str_def)
      then have "r = take (length r - 1) r @ [47]"
        by (metis append_take_drop_id)
      moreover have "join r (46 # s) = r @ 46 # s"
        using a True by (simp add: join_def)
      ultimately show ?thesis by metis
    next
      case e: False
      have "join r (46 # s) = (r @ [47]) @ 46 # s"
        using a e False by (simp add: join_def str_def)
      then show ?thesis by blast
    qed
  qed
qed

lemma splitext_join_dotfile:
  assumes "46 \<notin> set s" and "47 \<notin> set s"
  shows "splitext (join r (46 # s)) = (join r (46 # s), [])"
proof -
  from join_dotfile [of r s] obtain pre
    where p: "join r (46 # s) = pre @ 46 # s" "pre = [] \<or> (\<exists>q. pre = q @ [47])"
    by blast
  from splitext_dotfile [OF assms p(2)] p(1) show ?thesis by simp
qed

lemmas fs_defs =
  demo_fs_def demo_read_def visit_file_def excluded_def splitext_def join_def
  calculate_comment_code_ratio_def

text \<open>
  C10. A file whose whole name is a dot followed by a rest with no dot and no slash in
  it (46 is the dot, 47 the slash), such as \<open>.log\<close>, has the empty extension in every
  directory. So, whatever the exclude list holds besides the empty string, the name
  itself included, the file is not excluded, and the loop body treats it as it does
  with no exclude list at all.
\<close>

theorem dot_file_is_not_excluded:
  assumes "46 \<notin> set s" and "47 \<notin> set s" and "[] \<notin> set exts"
  shows "snd (splitext (join r (str ''.'' @ s))) = []
    \<and> excluded (Some exts) (join r (str ''.'' @ s)) = False
    \<and> visit_file fs (Some exts) r st (str ''.'' @ s) = visit_file fs None r st (str ''.'' @ s)"
proof -
  have n: "str ''.'' @ s = 46 # s" by (simp add: str_def)
  have e: "snd (splitext (join r (46 # s))) = []"
    using splitext_join_dotfile [OF assms(1,2)] by simp
  then have x: "excluded (Some exts) (join r (46 # s)) = False"
    using assms(3) by (simp add: excluded_def)
  have "excluded None (join r (46 # s)) = False" by (simp add: excluded_def)
  with x have "visit_file fs (Some exts) r st (46 # s) = visit_file fs None r st (46 # s)"
    by (simp add: visit_file_def Let_def)
  with e x show ?thesis unfolding n by simp
qed

text \<open>
  The file \<open>proj/.log\<close> of the example, with \<open>.log\<close> in the exclude list: it is
  opened and counted.
\<close>

theorem dot_file_is_not_excluded_witness:
  "46 \<notin> set (str ''log'') \<and> 47 \<notin> set (str ''log'')
    \<and> [] \<notin> set [str ''.log'', str ''.txt'']
    \<and> str ''.log'' \<in> set [str ''.log'', str ''.txt'']
    \<and> snd (splitext (join (str ''proj'') (str ''.'' @ str ''log''))) = []
    \<and> excluded (Some [str ''.log'', str ''.txt''])
         (join (str ''proj'') (str ''.'' @ str ''log'')) = False
    \<and> visit_file demo_fs (Some [str ''.log'', str ''.txt'']) (str ''proj'')
         \<lparr>total_comment_lines = 0, total_code_lines = 0, file_count = 0, opened = []\<rparr>
         (str ''.'' @ str ''log'')
       = \<lparr>total_comment_lines = 1, total_code_lines = 0, file_count = 1,
          opened = [str ''proj/.log'']\<rparr>"
proof -
  have h: "46 \<notin> set (str ''log'')" "47 \<notin> set (str ''log'')"
    "[] \<notin> set [str ''.log'', str ''.txt'']"
    by (simp_all add: str_simps)
  have v: "visit_file demo_fs None (str ''proj'')
         \<lparr>total_comment_lines = 0, total_code_lines = 0, file_count = 0, opened = []\<rparr>
         (str ''.'' @ str ''log'')
       = \<lparr>total_comment_lines = 1, total_code_lines = 0, file_count = 1,
          opened = [str ''proj/.log'']\<rparr>"
    by (simp add: fs_defs eval_defs)
  from dot_file_is_not_excluded [OF h, of "str ''proj''" demo_fs
      "\<lparr>total_comment_lines = 0, total_code_lines = 0, file_count = 0, opened = []\<rparr>"] v h
  show ?thesis by (simp add: str_simps)
qed

section \<open>What a traversal adds up\<close>

lemma visit_file_fields:
  "file_count (visit_file fs ex r st f)
     = file_count st + (if counted fs ex (join r f) then 1 else 0)"
  "total_comment_lines (visit_file fs ex r st f)
     = total_comment_lines st
       + (if counted fs ex (join r f) then file_comments fs (join r f) else 0)"
  "total_code_lines (visit_file fs ex r st f)
     = total_code_lines st + (if counted fs ex (join r f) then file_code fs (join r f) else 0)"
  "opened (visit_file fs ex r st f)
     = opened st @ (if opens fs ex (join r f) then [join r f] else [])"
  by (auto simp add: visit_file_def counted_def opens_def file_comments_def file_code_def
      calculate_comment_code_ratio_def Let_def split: sum.splits prod.splits)

lemma visit_files_fields:
  "file_count (visit_files fs ex r st files)
     = file_count st + int (length (filter (counted fs ex) (map (join r) files)))"
  "total_comment_lines (visit_files fs ex r st files)
     = total_comment_lines st
       + sum_list (map (file_comments fs) (filter (counted fs ex) (map (join r) files)))"
  "total_code_lines (visit_files fs ex r st files)
     = total_code_lines st
       + sum_list (map (file_code fs) (filter (counted fs ex) (map (join r) files)))"
  "opened (visit_files fs ex r st files)
     = opened st @ filter (opens fs ex) (map (join r) files)"
  by (induction files arbitrary: st; simp add: visit_file_fields)+

lemma walk_loop_fields:
  "file_count (walk_loop fs ex st w)
     = file_count st + int (length (filter (counted fs ex) (walked_paths w)))"
  "total_comment_lines (walk_loop fs ex st w)
     = total_comment_lines st
       + sum_list (map (file_comments fs) (filter (counted fs ex) (walked_paths w)))"
  "total_code_lines (walk_loop fs ex st w)
     = total_code_lines st
       + sum_list (map (file_code fs) (filter (counted fs ex) (walked_paths w)))"
  "opened (walk_loop fs ex st w)
     = opened st @ filter (opens fs ex) (walked_paths w)"
  by (induction w arbitrary: st;
      simp add: walked_paths_def visit_files_fields split: prod.splits)+

lemma spec_aggregate_list:
  "spec_aggregate fs ex (mset ps) =
     (int (length (filter (counted fs ex) ps)),
      sum_list (map (file_comments fs) (filter (counted fs ex) ps)),
      sum_list (map (file_code fs) (filter (counted fs ex) ps)),
      ratio_of (sum_list (map (file_comments fs) (filter (counted fs ex) ps)))
               (sum_list (map (file_code fs) (filter (counted fs ex) ps))))"
proof -
  have m: "\<And>f xs. sum_mset (image_mset f (mset xs)) = sum_list (map f xs)"
    by (metis mset_map sum_mset_sum_list)
  have "filter_mset (counted fs ex) (mset ps) = mset (filter (counted fs ex) ps)"
    by simp
  then show ?thesis
    unfolding spec_aggregate_def Let_def by (simp only: m size_mset)
qed

lemma analyze_directory_result:
  "isdir fs d \<Longrightarrow>
     analyze_directory fs d ex oplog =
       (Some (spec_aggregate fs ex (mset (candidates fs d))),
        oplog @ filter (opens fs ex) (candidates fs d))"
  by (simp add: analyze_directory_def Let_def walk_loop_fields spec_aggregate_list ratio_of_def
      candidates_def)

section \<open>The ratio\<close>

lemma ratio_of_nonneg: "0 \<le> c \<Longrightarrow> 0 \<le> ratio_of c k"
  by (simp add: ratio_of_def)

lemma file_counts_nonneg: "0 \<le> file_comments fs p \<and> 0 \<le> file_code fs p"
  using classify_lines_nonneg
  by (simp add: file_comments_def file_code_def split: sum.splits)

lemma sum_list_file_comments_nonneg: "0 \<le> sum_list (map (file_comments fs) ps)"
  by (rule sum_list_nonneg) (auto simp add: file_counts_nonneg)

text \<open>
  C5. For a file that is read, the ratio returned with the two counts is comment lines
  over code lines when there is a code line and 0 when there is none, and it is never
  negative. The overall ratio of a directory run is computed from the two totals in
  the same way.
\<close>

theorem ratio_zero_code_policy:
  "(read_file fs p = Inr lines \<longrightarrow>
      (\<exists>c k r. fst (calculate_comment_code_ratio fs p oplog) = Some (c, k, r)
         \<and> c = fst (classify_lines lines) \<and> k = fst (snd (classify_lines lines))
         \<and> r = (if k > 0 then of_int c / of_int k else 0) \<and> 0 \<le> r))
   \<and> (isdir fs d \<longrightarrow>
      (\<exists>n c k r. fst (analyze_directory fs d ex oplog) = Some (n, c, k, r)
         \<and> r = (if k > 0 then of_int c / of_int k else 0) \<and> 0 \<le> r))"
proof (intro conjI impI)
  assume "read_file fs p = Inr lines"
  then have "fst (calculate_comment_code_ratio fs p oplog) = Some (classify_lines lines)"
    by (simp add: calculate_comment_code_ratio_def)
  moreover have "snd (snd (classify_lines lines))
      = ratio_of (fst (classify_lines lines)) (fst (snd (classify_lines lines)))"
    by (simp add: classify_lines_def Let_def)
  moreover have "0 \<le> ratio_of (fst (classify_lines lines)) (fst (snd (classify_lines lines)))"
    using classify_lines_nonneg by (simp add: ratio_of_nonneg)
  ultimately show "\<exists>c k r. fst (calculate_comment_code_ratio fs p oplog) = Some (c, k, r)
         \<and> c = fst (classify_lines lines) \<and> k = fst (snd (classify_lines lines))
         \<and> r = (if k > 0 then of_int c / of_int k else 0) \<and> 0 \<le> r"
    by (metis prod.collapse ratio_of_def)
next
  assume "isdir fs d"
  then have "fst (analyze_directory fs d ex oplog)
      = Some (spec_aggregate fs ex (mset (candidates fs d)))"
    by (simp add: analyze_directory_result)
  moreover have "0 \<le> ratio_of (sum_list (map (file_comments fs) qs)) k" for qs k
    by (rule ratio_of_nonneg) (rule sum_list_file_comments_nonneg)
  ultimately show "\<exists>n c k r. fst (analyze_directory fs d ex oplog) = Some (n, c, k, r)
         \<and> r = (if k > 0 then of_int c / of_int k else 0) \<and> 0 \<le> r"
    unfolding spec_aggregate_list by (metis ratio_of_def)
qed

text \<open>
  In the example, \<open>proj/.log\<close> has one comment line and no code line: its ratio is 0.
\<close>

theorem ratio_zero_code_policy_witness:
  "read_file demo_fs (str ''proj/.log'') = Inr [str ''# note'']
   \<and> fst (calculate_comment_code_ratio demo_fs (str ''proj/.log'') []) = Some (1, 0, 0)
   \<and> read_file demo_fs (str ''proj/a.py'') = Inr [str ''# hello'', [], str ''world'']
   \<and> fst (calculate_comment_code_ratio demo_fs (str ''proj/a.py'') []) = Some (1, 1, 1)
   \<and> isdir demo_fs (str ''proj'')
   \<and> fst (analyze_directory demo_fs (str ''proj'') None []) = Some (3, 2, 2, 1)"
proof -
  have r1: "read_file demo_fs (str ''proj/.log'') = Inr [str ''# note'']"
    by (simp add: demo_fs_def demo_read_def str_simps)
  have r2: "read_file demo_fs (str ''proj/a.py'') = Inr [str ''# hello'', [], str ''world'']"
    by (simp add: demo_fs_def demo_read_def str_simps)
  have d: "isdir demo_fs (str ''proj'')" by (simp add: demo_fs_def)
  have c1: "classify_lines [str ''# note''] = (1, 0, 0)" by (simp add: eval_defs)
  have c2: "classify_lines [str ''# hello'', [], str ''world''] = (1, 1, 1)"
    by (simp add: eval_defs)
  have a: "fst (analyze_directory demo_fs (str ''proj'') None []) = Some (3, 2, 2, 1)"
    by (simp add: analyze_directory_def fs_defs eval_defs)
  from ratio_zero_code_policy [of demo_fs "str ''proj/.log''" "[str ''# note'']" "[]"
         "str ''proj''" None]
       ratio_zero_code_policy [of demo_fs "str ''proj/a.py''"
         "[str ''# hello'', [], str ''world'']" "[]" "str ''proj''" None]
       r1 r2 d c1 c2 a
  show ?thesis by auto
qed

section \<open>Read failures and results\<close>



section \<open>The aggregate of a traversal\<close>

lemma counted_walk_update [simp]: "counted (fs\<lparr>walk := w\<rparr>) ex = counted fs ex"
  by (rule ext) (simp add: counted_def)

lemma file_comments_walk_update [simp]: "file_comments (fs\<lparr>walk := w\<rparr>) = file_comments fs"
  by (rule ext) (simp add: file_comments_def)

lemma file_code_walk_update [simp]: "file_code (fs\<lparr>walk := w\<rparr>) = file_code fs"
  by (rule ext) (simp add: file_code_def)

lemma spec_aggregate_walk_update: "spec_aggregate (fs\<lparr>walk := w\<rparr>) ex M = spec_aggregate fs ex M"
  by (simp add: spec_aggregate_def)

lemma visit_file_failure:
  "\<not> excluded ex (join r f) \<Longrightarrow> isfile fs (join r f) \<Longrightarrow> read_file fs (join r f) = Inl e
   \<Longrightarrow> visit_file fs ex r st f = st\<lparr>opened := opened st @ [join r f]\<rparr>"
  by (simp add: visit_file_def calculate_comment_code_ratio_def Let_def)

lemma visit_file_success:
  "\<not> excluded ex (join r f) \<Longrightarrow> isfile fs (join r f) \<Longrightarrow> read_file fs (join r f) = Inr lines
   \<Longrightarrow> visit_file fs ex r st f =
       st\<lparr>file_count := file_count st + 1,
          total_comment_lines := total_comment_lines st + fst (classify_lines lines),
          total_code_lines := total_code_lines st + fst (snd (classify_lines lines)),
          opened := opened st @ [join r f]\<rparr>"
  by (simp add: visit_file_def calculate_comment_code_ratio_def Let_def split: prod.splits)

lemma filter_counted_without:
  assumes "\<not> counted fs ex p"
  shows "filter_mset (counted fs ex) (filter_mset (\<lambda>q. q \<noteq> p) M) = filter_mset (counted fs ex) M"
proof -
  have "filter_mset (counted fs ex) (filter_mset (\<lambda>q. q \<noteq> p) M)
      = filter_mset (\<lambda>q. q \<noteq> p \<and> counted fs ex q) M"
    by (simp add: filter_filter_mset)
  also have "\<dots> = filter_mset (counted fs ex) M"
    using assms by (intro filter_mset_cong) auto
  finally show ?thesis .
qed

lemma spec_aggregate_without:
  "\<not> counted fs ex p \<Longrightarrow>
     spec_aggregate fs ex (filter_mset (\<lambda>q. q \<noteq> p) M) = spec_aggregate fs ex M"
  by (simp add: spec_aggregate_def filter_counted_without)

lemma demo_candidates:
  "candidates demo_fs (str ''proj'')
     = [str ''proj/a.py'', str ''proj/b.log'', str ''proj/.log'', str ''proj/locked.py'',
        str ''proj/sub'']"
  by (simp add: candidates_def walked_paths_def demo_fs_def join_def startswith_def
      endswith_def str_simps)

lemma demo_aggregate:
  "spec_aggregate demo_fs (Some [str ''.log''])
     (mset [str ''proj/a.py'', str ''proj/b.log'', str ''proj/.log'', str ''proj/locked.py'',
        str ''proj/sub'']) = (2, 2, 1, 2)"
  unfolding spec_aggregate_list
  by (simp add: counted_def file_comments_def file_code_def fs_defs eval_defs)

text \<open>
  C7. In the loop body, a file whose read fails leaves the three totals as they are
  (only the log of opened paths grows) and the loop goes on; a file that is read adds
  its two counts to the totals and one to the file count. So the summary of a directory
  run is the sum of the per-file results over the multiset of walked paths that are not
  excluded, are regular files and are read without error, and any walk that meets the
  same paths, in whatever order, gives the same summary.
\<close>

theorem aggregate_sums_counted_files:
  assumes "isdir fs d"
  shows "fst (analyze_directory fs d ex oplog)
           = Some (spec_aggregate fs ex (mset (candidates fs d)))
    \<and> (\<forall>w. mset (candidates (fs\<lparr>walk := w\<rparr>) d) = mset (candidates fs d) \<longrightarrow>
          fst (analyze_directory (fs\<lparr>walk := w\<rparr>) d ex oplog)
            = fst (analyze_directory fs d ex oplog))
    \<and> (\<not> excluded ex (join r f) \<and> isfile fs (join r f) \<and> read_file fs (join r f) = Inl e \<longrightarrow>
          visit_file fs ex r st f = st\<lparr>opened := opened st @ [join r f]\<rparr>)
    \<and> (\<not> excluded ex (join r f) \<and> isfile fs (join r f) \<and> read_file fs (join r f) = Inr lines \<longrightarrow>
          visit_file fs ex r st f =
            st\<lparr>file_count := file_count st + 1,
               total_comment_lines := total_comment_lines st + fst (classify_lines lines),
               total_code_lines := total_code_lines st + fst (snd (classify_lines lines)),
               opened := opened st @ [join r f]\<rparr>)"
proof (intro conjI allI impI)
  show a: "fst (analyze_directory fs d ex oplog)
           = Some (spec_aggregate fs ex (mset (candidates fs d)))"
    using assms by (simp add: analyze_directory_result)
  fix w
  assume m: "mset (candidates (fs\<lparr>walk := w\<rparr>) d) = mset (candidates fs d)"
  have "isdir (fs\<lparr>walk := w\<rparr>) d" using assms by simp
  then have "fst (analyze_directory (fs\<lparr>walk := w\<rparr>) d ex oplog)
      = Some (spec_aggregate (fs\<lparr>walk := w\<rparr>) ex (mset (candidates (fs\<lparr>walk := w\<rparr>) d)))"
    by (simp only: analyze_directory_result fst_conv)
  with m a show "fst (analyze_directory (fs\<lparr>walk := w\<rparr>) d ex oplog)
            = fst (analyze_directory fs d ex oplog)"
    by (simp add: spec_aggregate_walk_update)
next
  assume "\<not> excluded ex (join r f) \<and> isfile fs (join r f) \<and> read_file fs (join r f) = Inl e"
  then show "visit_file fs ex r st f = st\<lparr>opened := opened st @ [join r f]\<rparr>"
    by (simp add: visit_file_failure)
next
  assume "\<not> excluded ex (join r f) \<and> isfile fs (join r f) \<and> read_file fs (join r f) = Inr lines"
  then show "visit_file fs ex r st f =
            st\<lparr>file_count := file_count st + 1,
               total_comment_lines := total_comment_lines st + fst (classify_lines lines),
               total_code_lines := total_code_lines st + fst (snd (classify_lines lines)),
               opened := opened st @ [join r f]\<rparr>"
    by (simp add: visit_file_success)
qed

text \<open>
  The example directory, walked in two orders; \<open>locked.py\<close> cannot be read,
  \<open>a.py\<close> can.
\<close>

theorem aggregate_sums_counted_files_witness:
  "isdir demo_fs (str ''proj'')
   \<and> fst (analyze_directory demo_fs (str ''proj'') (Some [str ''.log'']) []) = Some (2, 2, 1, 2)
   \<and> fst (analyze_directory
        (demo_fs\<lparr>walk := \<lambda>p. [(str ''proj'', [],
            [str ''sub'', str ''locked.py'', str ''.log'', str ''b.log'', str ''a.py''])]\<rparr>)
        (str ''proj'') (Some [str ''.log'']) []) = Some (2, 2, 1, 2)
   \<and> read_file demo_fs (join (str ''proj'') (str ''locked.py'')) = Inl PermissionError
   \<and> visit_file demo_fs (Some [str ''.log'']) (str ''proj'') agg_start (str ''locked.py'')
       = agg_start\<lparr>opened := [str ''proj/locked.py'']\<rparr>
   \<and> read_file demo_fs (join (str ''proj'') (str ''a.py''))
       = Inr [str ''# hello'', [], str ''world'']
   \<and> visit_file demo_fs (Some [str ''.log'']) (str ''proj'') agg_start (str ''a.py'')
       = \<lparr>total_comment_lines = 1, total_code_lines = 1, file_count = 1,
          opened = [str ''proj/a.py'']\<rparr>"
proof -
  let ?w = "\<lambda>p::pystr. [(str ''proj'', [] :: pystr list,
            [str ''sub'', str ''locked.py'', str ''.log'', str ''b.log'', str ''a.py''])]"
  have d: "isdir demo_fs (str ''proj'')" by (simp add: demo_fs_def)
  have m: "mset (candidates (demo_fs\<lparr>walk := ?w\<rparr>) (str ''proj''))
             = mset (candidates demo_fs (str ''proj''))"
    unfolding demo_candidates
    by (simp add: candidates_def walked_paths_def join_def startswith_def endswith_def str_simps)
  have j1: "join (str ''proj'') (str ''locked.py'') = str ''proj/locked.py''"
    and j2: "join (str ''proj'') (str ''a.py'') = str ''proj/a.py''"
    by (simp_all add: join_def startswith_def endswith_def str_simps)
  have r1: "read_file demo_fs (str ''proj/locked.py'') = Inl PermissionError"
    and r2: "read_file demo_fs (str ''proj/a.py'') = Inr [str ''# hello'', [], str ''world'']"
    by (simp_all add: demo_fs_def demo_read_def str_simps)
  have i: "isfile demo_fs (str ''proj/locked.py'')" "isfile demo_fs (str ''proj/a.py'')"
    by (simp_all add: demo_fs_def)
  have x: "\<not> excluded (Some [str ''.log'']) (str ''proj/locked.py'')"
    "\<not> excluded (Some [str ''.log'']) (str ''proj/a.py'')"
    by (simp_all add: excluded_def splitext_def str_simps)
  have c: "classify_lines [str ''# hello'', [], str ''world''] = (1, 1, 1)"
    by (simp add: eval_defs)
  from aggregate_sums_counted_files [OF d, of "Some [str ''.log'']" "[]" "str ''proj''" "str ''locked.py''"
             PermissionError agg_start "[str ''# hello'', [], str ''world'']"]
       aggregate_sums_counted_files [OF d, of "Some [str ''.log'']" "[]" "str ''proj''" "str ''a.py''"
             PermissionError agg_start "[str ''# hello'', [], str ''world'']"]
       m d r1 r2 i x c
  show ?thesis
    unfolding j1 j2 demo_candidates demo_aggregate
    by (simp add: agg_start_def)
qed

text \<open>
  C8. A file whose extension, as \<open>os.path.splitext\<close> gives it, is an element of the
  exclude list is skipped by the loop body with nothing changed: no total, not the file
  count, not the log of opened paths. Its path is not among the paths a directory run
  opens, and the summary is the one over the walked paths without it. The comparison is
  equality of strings, so \<open>.LOG\<close> is not excluded by \<open>.log\<close>.
\<close>

theorem excluded_extension_skipped_unread:
  assumes "snd (splitext (join r f)) \<in> set exts"
  shows "visit_file fs (Some exts) r st f = st
    \<and> join r f \<notin> set (snd (analyze_directory fs d (Some exts) []))
    \<and> (isdir fs d \<longrightarrow>
         fst (analyze_directory fs d (Some exts) oplog)
           = Some (spec_aggregate fs (Some exts)
                     (filter_mset (\<lambda>q. q \<noteq> join r f) (mset (candidates fs d)))))"
proof -
  have x: "excluded (Some exts) (join r f)"
    using assms by (auto simp add: excluded_def)
  then have v: "visit_file fs (Some exts) r st f = st"
    by (simp add: visit_file_def Let_def)
  have o: "\<not> opens fs (Some exts) (join r f)" using x by (simp add: opens_def)
  have l: "join r f \<notin> set (snd (analyze_directory fs d (Some exts) []))"
  proof (cases "isdir fs d")
    case True
    then show ?thesis using o by (simp add: analyze_directory_result)
  next
    case False
    then show ?thesis by (simp add: analyze_directory_def)
  qed
  have c: "\<not> counted fs (Some exts) (join r f)" using x by (simp add: counted_def)
  have "isdir fs d \<longrightarrow>
         fst (analyze_directory fs d (Some exts) oplog)
           = Some (spec_aggregate fs (Some exts)
                     (filter_mset (\<lambda>q. q \<noteq> join r f) (mset (candidates fs d))))"
    using c by (simp add: analyze_directory_result spec_aggregate_without)
  with v l show ?thesis by blast
qed

theorem excluded_extension_skipped_unread_witness:
  "snd (splitext (join (str ''proj'') (str ''b.log''))) = str ''.log''
   \<and> str ''.log'' \<in> set [str ''.log'']
   \<and> visit_file demo_fs (Some [str ''.log'']) (str ''proj'') agg_start (str ''b.log'') = agg_start
   \<and> snd (analyze_directory demo_fs (str ''proj'') (Some [str ''.log'']) [])
       = [str ''proj/a.py'', str ''proj/.log'', str ''proj/locked.py'']
   \<and> str ''proj/b.log'' \<notin> set (snd (analyze_directory demo_fs (str ''proj'') (Some [str ''.log'']) []))
   \<and> isdir demo_fs (str ''proj'')
   \<and> fst (analyze_directory demo_fs (str ''proj'') (Some [str ''.log'']) [])
       = Some (2, 2, 1, 2)
   \<and> snd (splitext (join (str ''proj'') (str ''b.LOG''))) \<notin> set [str ''.log'']"
proof -
  have j: "join (str ''proj'') (str ''b.log'') = str ''proj/b.log''"
    by (simp add: join_def startswith_def endswith_def str_simps)
  have e: "snd (splitext (str ''proj/b.log'')) = str ''.log''"
    by (simp add: splitext_def str_simps)
  have h: "snd (splitext (join (str ''proj'') (str ''b.log''))) \<in> set [str ''.log'']"
    unfolding j e by simp
  have d: "isdir demo_fs (str ''proj'')" by (simp add: demo_fs_def)
  have l: "snd (analyze_directory demo_fs (str ''proj'') (Some [str ''.log'']) [])
       = [str ''proj/a.py'', str ''proj/.log'', str ''proj/locked.py'']"
    by (simp add: analyze_directory_def fs_defs eval_defs)
  have u: "snd (splitext (join (str ''proj'') (str ''b.LOG''))) \<notin> set [str ''.log'']"
    by (simp add: splitext_def join_def startswith_def endswith_def str_simps)
  have f: "filter_mset (\<lambda>q. q \<noteq> str ''proj/b.log'') (mset (candidates demo_fs (str ''proj'')))
      = mset [str ''proj/a.py'', str ''proj/.log'', str ''proj/locked.py'', str ''proj/sub'']"
    unfolding demo_candidates by (simp add: str_simps)
  have a: "spec_aggregate demo_fs (Some [str ''.log''])
      (mset [str ''proj/a.py'', str ''proj/.log'', str ''proj/locked.py'', str ''proj/sub''])
      = (2, 2, 1, 2)"
    unfolding spec_aggregate_list
    by (simp add: counted_def file_comments_def file_code_def fs_defs eval_defs)
  from excluded_extension_skipped_unread [OF h, of demo_fs agg_start "str ''proj''" "[]"]
       d l u e
  show ?thesis unfolding j f a by simp
qed

section \<open>No state survives a call\<close>

text \<open>
  C9. Every call starts its scan with both counts 0 and the flag false, whatever was
  classified before: the result of a call that follows any other call is the result of
  the scan from that start over the lines read, so classifying a file a second time
  gives the same counts and ratio. The flag a call ends with is dropped with the call:
  when two files of a directory are classified one after the other, each adds the
  counts of its own scan from the fresh start to the totals, also when the first file
  ends with the flag set.
\<close>

theorem classifier_keeps_no_state:
  "fst (calculate_comment_code_ratio fs p
          (snd (calculate_comment_code_ratio fs q
             (snd (calculate_comment_code_ratio fs p oplog)))))
     = fst (calculate_comment_code_ratio fs p oplog)
   \<and> fst (calculate_comment_code_ratio fs p (snd (calculate_comment_code_ratio fs q oplog')))
     = (case read_file fs p of
          Inl e \<Rightarrow> None
        | Inr lines \<Rightarrow>
            Some (comment_count
                    (scan \<lparr>comment_count = 0, code_line_count = 0,
                            in_multiline_comment = False\<rparr> lines),
                  code_line_count
                    (scan \<lparr>comment_count = 0, code_line_count = 0,
                            in_multiline_comment = False\<rparr> lines),
                  ratio_of
                    (comment_count
                       (scan \<lparr>comment_count = 0, code_line_count = 0,
                               in_multiline_comment = False\<rparr> lines))
                    (code_line_count
                       (scan \<lparr>comment_count = 0, code_line_count = 0,
                               in_multiline_comment = False\<rparr> lines))))
   \<and> (\<not> excluded ex (join r f) \<and> isfile fs (join r f) \<and> read_file fs (join r f) = Inr first
       \<and> \<not> excluded ex (join r g) \<and> isfile fs (join r g) \<and> read_file fs (join r g) = Inr second
       \<longrightarrow>
         total_comment_lines (visit_files fs ex r st [f, g])
           = total_comment_lines st
             + comment_count
                 (scan \<lparr>comment_count = 0, code_line_count = 0,
                         in_multiline_comment = False\<rparr> first)
             + comment_count
                 (scan \<lparr>comment_count = 0, code_line_count = 0,
                         in_multiline_comment = False\<rparr> second)
         \<and> total_code_lines (visit_files fs ex r st [f, g])
           = total_code_lines st
             + code_line_count
                 (scan \<lparr>comment_count = 0, code_line_count = 0,
                         in_multiline_comment = False\<rparr> first)
             + code_line_count
                 (scan \<lparr>comment_count = 0, code_line_count = 0,
                         in_multiline_comment = False\<rparr> second))"
proof (intro conjI impI)
  show "fst (calculate_comment_code_ratio fs p
          (snd (calculate_comment_code_ratio fs q
             (snd (calculate_comment_code_ratio fs p oplog)))))
     = fst (calculate_comment_code_ratio fs p oplog)"
    by (simp add: calculate_comment_code_ratio_def split: sum.splits)
next
  show "fst (calculate_comment_code_ratio fs p (snd (calculate_comment_code_ratio fs q oplog')))
     = (case read_file fs p of
          Inl e \<Rightarrow> None
        | Inr lines \<Rightarrow>
            Some (comment_count
                    (scan \<lparr>comment_count = 0, code_line_count = 0,
                            in_multiline_comment = False\<rparr> lines),
                  code_line_count
                    (scan \<lparr>comment_count = 0, code_line_count = 0,
                            in_multiline_comment = False\<rparr> lines),
                  ratio_of
                    (comment_count
                       (scan \<lparr>comment_count = 0, code_line_count = 0,
                               in_multiline_comment = False\<rparr> lines))
                    (code_line_count
                       (scan \<lparr>comment_count = 0, code_line_count = 0,
                               in_multiline_comment = False\<rparr> lines))))"
    by (simp add: calculate_comment_code_ratio_def classify_lines_def scan_init_def Let_def
        split: sum.splits)
next
  assume a: "\<not> excluded ex (join r f) \<and> isfile fs (join r f) \<and> read_file fs (join r f) = Inr first
       \<and> \<not> excluded ex (join r g) \<and> isfile fs (join r g) \<and> read_file fs (join r g) = Inr second"
  then have c: "counted fs ex (join r f)" "counted fs ex (join r g)"
    by (simp_all add: counted_def)
  from a have m: "file_comments fs (join r f) = fst (classify_lines first)"
    "file_comments fs (join r g) = fst (classify_lines second)"
    by (simp_all add: file_comments_def)
  from c m show "total_comment_lines (visit_files fs ex r st [f, g])
           = total_comment_lines st
             + comment_count
                 (scan \<lparr>comment_count = 0, code_line_count = 0,
                         in_multiline_comment = False\<rparr> first)
             + comment_count
                 (scan \<lparr>comment_count = 0, code_line_count = 0,
                         in_multiline_comment = False\<rparr> second)"
    by (simp add: visit_file_fields classify_lines_def scan_init_def Let_def)
  from a have k: "file_code fs (join r f) = fst (snd (classify_lines first))"
    "file_code fs (join r g) = fst (snd (classify_lines second))"
    by (simp_all add: file_code_def)
  from c k show "total_code_lines (visit_files fs ex r st [f, g])
           = total_code_lines st
             + code_line_count
                 (scan \<lparr>comment_count = 0, code_line_count = 0,
                         in_multiline_comment = False\<rparr> first)
             + code_line_count
                 (scan \<lparr>comment_count = 0, code_line_count = 0,
                         in_multiline_comment = False\<rparr> second)"
    by (simp add: visit_file_fields classify_lines_def scan_init_def Let_def)
qed

text \<open>
  In the second example \<open>open.c\<close> ends with the flag set. The line of \<open>x.py\<close>,
  classified next, is code; a scan that went on from the state \<open>open.c\<close> left
  would have counted it as a comment.
\<close>

theorem classifier_keeps_no_state_witness:
  "in_multiline_comment (scan scan_init [str ''/* open''])
   \<and> fst (calculate_comment_code_ratio two_files_fs (str ''proj/x.py'')
           (snd (calculate_comment_code_ratio two_files_fs (str ''proj/open.c'') [])))
       = Some (0, 1, 0)
   \<and> code_line_count (scan (scan scan_init [str ''/* open'']) [str ''code'']) = 0
   \<and> read_file two_files_fs (join (str ''proj'') (str ''open.c'')) = Inr [str ''/* open'']
   \<and> read_file two_files_fs (join (str ''proj'') (str ''x.py'')) = Inr [str ''code'']
   \<and> isfile two_files_fs (join (str ''proj'') (str ''open.c''))
   \<and> isfile two_files_fs (join (str ''proj'') (str ''x.py''))
   \<and> total_comment_lines
         (visit_files two_files_fs None (str ''proj'') agg_start [str ''open.c'', str ''x.py''])
       = 1
   \<and> total_code_lines
         (visit_files two_files_fs None (str ''proj'') agg_start [str ''open.c'', str ''x.py''])
       = 1"
proof -
  have j: "join (str ''proj'') (str ''open.c'') = str ''proj/open.c''"
    "join (str ''proj'') (str ''x.py'') = str ''proj/x.py''"
    by (simp_all add: join_def startswith_def endswith_def str_simps)
  have r: "read_file two_files_fs (str ''proj/open.c'') = Inr [str ''/* open'']"
    "read_file two_files_fs (str ''proj/x.py'') = Inr [str ''code'']"
    by (simp_all add: two_files_fs_def str_simps)
  have i: "isfile two_files_fs (str ''proj/open.c'')" "isfile two_files_fs (str ''proj/x.py'')"
    by (simp_all add: two_files_fs_def)
  have x: "\<not> excluded None (str ''proj/open.c'')" "\<not> excluded None (str ''proj/x.py'')"
    by (simp_all add: excluded_def)
  have s1: "scan \<lparr>comment_count = 0, code_line_count = 0, in_multiline_comment = False\<rparr>
              [str ''/* open'']
            = \<lparr>comment_count = 1, code_line_count = 0, in_multiline_comment = True\<rparr>"
    by (simp add: eval_defs)
  have s2: "scan \<lparr>comment_count = 0, code_line_count = 0, in_multiline_comment = False\<rparr>
              [str ''code'']
            = \<lparr>comment_count = 0, code_line_count = 1, in_multiline_comment = False\<rparr>"
    by (simp add: eval_defs)
  have s3: "scan \<lparr>comment_count = 1, code_line_count = 0, in_multiline_comment = True\<rparr>
              [str ''code'']
            = \<lparr>comment_count = 2, code_line_count = 0, in_multiline_comment = True\<rparr>"
    by (simp add: eval_defs)
  from classifier_keeps_no_state [of two_files_fs "str ''proj/x.py''" "str ''proj/open.c''"
         "[]" "[]" None "str ''proj''" "str ''open.c''" "[str ''/* open'']" "str ''x.py''"
         "[str ''code'']" agg_start]
       r i x
  show ?thesis
    unfolding j
    by (simp add: s1 s2 s3 scan_init_def agg_start_def ratio_of_def del: scan.simps)
qed

end
